theory Spec2Isabelle
  imports Complex_Main "HOL-Library.AList"
begin

section \<open>Battelligence: a battery-cell dashboard\<close>

text \<open>
  The program is one Python script, \<^verbatim>\<open>Battelligence.py\<close>. It keeps a dictionary of
  cell records in the session and classifies a cell by its voltage against a table of
  chemistries. The Configuration page creates the records, the Control Panel and the
  Real-time Monitor change them, and the Analysis page derives metrics from them.

  Conventions of the embedding:
  \<^item> a Python float is a \<^typ>\<open>real\<close>: arithmetic is exact, there is no NaN and no
    infinity, and what binary floating point adds to a result is not modelled;
  \<^item> a Python dict is an association list in insertion order with distinct keys
    (\<open>AList.update\<close> is the assignment \<^verbatim>\<open>d[k] = v\<close>);
  \<^item> an exception is a value \<open>Inl e\<close> of the sum type \<open>py_error + 'a\<close>;
  \<^item> what a widget returns, what \<^verbatim>\<open>random.uniform\<close> draws and what
    \<^verbatim>\<open>datetime.now()\<close> reads are parameters of the functions that use them.
\<close>

subsection \<open>Python primitives\<close>

datatype py_error = KeyError | ZeroDivisionError

text \<open>\<^verbatim>\<open>d[k]\<close> raises KeyError on a missing key; \<^verbatim>\<open>d.get(k, default)\<close> does not.\<close>

definition getitem :: "('k \<times> 'v) list \<Rightarrow> 'k \<Rightarrow> py_error + 'v" where
  "getitem d k = (case map_of d k of None \<Rightarrow> Inl KeyError | Some v \<Rightarrow> Inr v)"

definition dict_get :: "('k \<times> 'v) list \<Rightarrow> 'k \<Rightarrow> 'v \<Rightarrow> 'v" where
  "dict_get d k dflt = (case map_of d k of None \<Rightarrow> dflt | Some v \<Rightarrow> v)"

text \<open>\<^verbatim>\<open>a / b\<close> on floats raises ZeroDivisionError when \<open>b\<close> is zero.\<close>

definition truediv :: "real \<Rightarrow> real \<Rightarrow> py_error + real" where
  "truediv a b = (if b = 0 then Inl ZeroDivisionError else Inr (a / b))"

text \<open>
  \<^verbatim>\<open>round(x, ndigits)\<close>: the multiple of \<open>10\<^sup>-\<^sup>n\<close> nearest to \<open>x\<close>, a tie going to
  the even one.
\<close>

definition round_half_even :: "real \<Rightarrow> int" where
  "round_half_even x =
     (let f = \<lfloor>x\<rfloor>; d = x - of_int f
      in if d < 1 / 2 then f
         else if d > 1 / 2 then f + 1
         else if even f then f else f + 1)"

definition py_round :: "real \<Rightarrow> nat \<Rightarrow> real" where
  "py_round x ndigits = of_int (round_half_even (x * 10 ^ ndigits)) / 10 ^ ndigits"

text \<open>
  \<^verbatim>\<open>str.lower()\<close>, on the characters a \<^typ>\<open>string\<close> has: the 26 capital letters of
  ASCII go to their small letters, every other character stays.
\<close>

definition lower_char :: "char \<Rightarrow> char" where
  "lower_char c =
     (case map_of (zip ''ABCDEFGHIJKLMNOPQRSTUVWXYZ'' ''abcdefghijklmnopqrstuvwxyz'') c of
        None \<Rightarrow> c
      | Some l \<Rightarrow> l)"

definition lower :: "string \<Rightarrow> string" where
  "lower s = map lower_char s"

text \<open>\<^verbatim>\<open>str(n)\<close> for a natural number, used by the f-string that names a cell.\<close>

fun str_nat :: "nat \<Rightarrow> string" where
  "str_nat n =
     (if n < 10 then [''0123456789'' ! n]
      else str_nat (n div 10) @ [''0123456789'' ! (n mod 10)])"

declare str_nat.simps [simp del]

subsection \<open>The chemistry table and the status classifier\<close>

record cell_config =
  nominal :: real
  min_cfg :: real
  max_cfg :: real
  color :: string

definition LFP :: cell_config where
  "LFP = \<lparr>nominal = 3.2, min_cfg = 2.8, max_cfg = 3.6, color = ''#28a745''\<rparr>"

definition NMC :: cell_config where
  "NMC = \<lparr>nominal = 3.6, min_cfg = 3.2, max_cfg = 4.0, color = ''#007bff''\<rparr>"

definition LTO :: cell_config where
  "LTO = \<lparr>nominal = 2.4, min_cfg = 1.5, max_cfg = 2.8, color = ''#ffc107''\<rparr>"

definition LCO :: cell_config where
  "LCO = \<lparr>nominal = 3.7, min_cfg = 3.0, max_cfg = 4.2, color = ''#dc3545''\<rparr>"

definition CELL_CONFIGS :: "(string \<times> cell_config) list" where
  "CELL_CONFIGS = [(''lfp'', LFP), (''nmc'', NMC), (''lto'', LTO), (''lco'', LCO)]"

text \<open>The four labels \<^verbatim>\<open>get_cell_status\<close> can name; the second component of its
  result is the CSS class.\<close>

datatype status = Critical | Overcharged | Normal | Warning

definition get_cell_status :: "real \<Rightarrow> string \<Rightarrow> py_error + (status \<times> string)" where
  "get_cell_status v ct =
     (case getitem CELL_CONFIGS ''lfp'' of
        Inl e \<Rightarrow> Inl e
      | Inr dflt \<Rightarrow>
          (let config = dict_get CELL_CONFIGS (lower ct) dflt
           in if v < min_cfg config then Inr (Critical, ''status-danger'')
              else if v > max_cfg config then Inr (Overcharged, ''status-warning'')
              else if min_cfg config \<le> v \<and> v \<le> max_cfg config then Inr (Normal, ''status-good'')
              else Inr (Warning, ''status-warning'')))"

subsection \<open>Cell records and the session\<close>

text \<open>
  A cell record is the inner dict of \<^verbatim>\<open>cells_data\<close>. Its key \<^verbatim>\<open>"timestamp"\<close> is
  absent until a mock refresh adds it.
\<close>

record cell =
  voltage :: real
  current :: real
  temp :: real
  capacity :: real
  min_voltage :: real
  max_voltage :: real
  cell_type :: string
  timestamp :: "nat option"

type_synonym registry = "(string \<times> cell) list"

text \<open>
  A snapshot of the monitor is \<^verbatim>\<open>{"timestamp": ..., "data": cells_data.copy()}\<close>. The copy
  is shallow: the snapshot's dict holds the record objects of the session, not copies of
  them. \<open>snap_live\<close> says that the snapshot holds the records the session has now, and
  \<open>snap_data\<close> is what the snapshot shows when it is read.
\<close>

record snapshot =
  snap_time :: nat
  snap_live :: bool
  snap_data :: registry

record session =
  cells_data :: registry
  bench_name :: string
  group_num :: nat
  historical_data :: "snapshot list"

definition initial_session :: session where
  "initial_session = \<lparr>cells_data = [], bench_name = [], group_num = 1, historical_data = []\<rparr>"

subsection \<open>Mock telemetry\<close>

text \<open>
  One call of \<^verbatim>\<open>generate_mock_data\<close> draws \<^verbatim>\<open>random.uniform(-0.1, 0.1)\<close>,
  \<^verbatim>\<open>random.uniform(-0.5, 0.5)\<close> and \<^verbatim>\<open>random.uniform(25, 45)\<close> and reads the clock.
\<close>

record draw =
  jitter_v :: real
  jitter_i :: real
  rand_temp :: real
  clock :: nat

record mock_data =
  md_voltage :: real
  md_current :: real
  md_temp :: real
  md_timestamp :: nat

definition generate_mock_data :: "string \<Rightarrow> real \<Rightarrow> real \<Rightarrow> draw \<Rightarrow> mock_data" where
  "generate_mock_data ct base_voltage base_current r =
     \<lparr>md_voltage = py_round (base_voltage + jitter_v r) 2,
      md_current = py_round (base_current + jitter_i r) 2,
      md_temp = py_round (rand_temp r) 1,
      md_timestamp = clock r\<rparr>"

text \<open>\<^verbatim>\<open>data.update(mock)\<close>: the four keys of the mock dict overwrite the record's.\<close>

definition dict_update :: "cell \<Rightarrow> mock_data \<Rightarrow> cell" where
  "dict_update d m =
     d\<lparr>voltage := md_voltage m, current := md_current m, temp := md_temp m,
       timestamp := Some (md_timestamp m)\<rparr>"

subsection \<open>Configuration page\<close>

text \<open>
  The loop over the cell slots. A slot gives the selectbox's cell type, the number
  input's current and the draw of \<^verbatim>\<open>random.uniform(25, 40)\<close>; \<open>i\<close> is the loop index.
\<close>

fun configure :: "nat \<Rightarrow> (string \<times> real \<times> real) list \<Rightarrow> registry \<Rightarrow> py_error + registry" where
  "configure i [] cells = Inr cells"
| "configure i ((ct, cur, u) # slots) cells =
     (case getitem CELL_CONFIGS ct of
        Inl e \<Rightarrow> Inl e
      | Inr config \<Rightarrow>
          configure (i + 1) slots
            (AList.update (''cell_'' @ str_nat (i + 1) @ ''_'' @ ct)
               \<lparr>voltage = nominal config, current = cur, temp = py_round u 1,
                capacity = py_round (nominal config * cur) 2,
                min_voltage = min_cfg config, max_voltage = max_cfg config,
                cell_type = ct, timestamp = None\<rparr>
               cells))"

text \<open>
  The button "Save Configuration". The session gets a new dictionary of new records; the
  snapshots taken before keep the records they hold, which nothing changes any more.
\<close>

definition retire_snapshots :: "snapshot list \<Rightarrow> snapshot list" where
  "retire_snapshots h = map (\<lambda>sn. sn\<lparr>snap_live := False\<rparr>) h"

definition save_configuration ::
  "session \<Rightarrow> string \<Rightarrow> nat \<Rightarrow> (string \<times> real \<times> real) list \<Rightarrow> py_error + session" where
  "save_configuration s bn gn slots =
     (case configure 0 slots [] of
        Inl e \<Rightarrow> Inl e
      | Inr cells \<Rightarrow>
          Inr (s\<lparr>cells_data := cells, bench_name := bn, group_num := gn,
                 historical_data := retire_snapshots (historical_data s)\<rparr>))"

subsection \<open>Control panel\<close>

text \<open>
  The sliders of a cell return a voltage, a current and a temperature; the page writes
  them into the record and recomputes the capacity. The copy the page works on is a
  shallow one, so the records it changes are the session's.
\<close>

definition control_update :: "(string \<Rightarrow> real \<times> real \<times> real) \<Rightarrow> registry \<Rightarrow> registry" where
  "control_update sliders cells =
     map (\<lambda>(cell_name, d).
            (case sliders cell_name of
               (new_voltage, new_current, new_temp) \<Rightarrow>
                 (cell_name,
                  d\<lparr>voltage := new_voltage, current := new_current, temp := new_temp,
                    capacity := py_round (new_voltage * new_current) 2\<rparr>)))
         cells"

text \<open>The button "Randomize Values": the base voltage is the chemistry's nominal one.\<close>

fun randomize_values :: "(string \<Rightarrow> draw) \<Rightarrow> registry \<Rightarrow> py_error + registry" where
  "randomize_values draws [] = Inr []"
| "randomize_values draws ((cell_name, d) # cells) =
     (case getitem CELL_CONFIGS (cell_type d) of
        Inl e \<Rightarrow> Inl e
      | Inr config \<Rightarrow>
          (case randomize_values draws cells of
             Inl e \<Rightarrow> Inl e
           | Inr cells' \<Rightarrow>
               Inr ((cell_name,
                     dict_update d
                       (generate_mock_data (cell_type d) (nominal config) (current d)
                          (draws cell_name)))
                    # cells')))"

text \<open>The button "Emergency Stop".\<close>

definition emergency_stop :: "registry \<Rightarrow> registry" where
  "emergency_stop cells = map (\<lambda>(cell_name, d). (cell_name, d\<lparr>current := 0, capacity := 0\<rparr>)) cells"

text \<open>The system health indicator: the cells whose status label is "Normal", counted
  by summing a one for each, over the number of cells, times 100.\<close>

fun healthy_cells :: "registry \<Rightarrow> py_error + nat" where
  "healthy_cells [] = Inr 0"
| "healthy_cells ((cell_name, d) # cells) =
     (case get_cell_status (voltage d) (cell_type d) of
        Inl e \<Rightarrow> Inl e
      | Inr (st, cls) \<Rightarrow>
          (case healthy_cells cells of
             Inl e \<Rightarrow> Inl e
           | Inr n \<Rightarrow> Inr ((if st = Normal then 1 else 0) + n)))"

definition health_percentage :: "registry \<Rightarrow> py_error + real" where
  "health_percentage cells =
     (case healthy_cells cells of
        Inl e \<Rightarrow> Inl e
      | Inr n \<Rightarrow>
          (case truediv (real n) (real (length cells)) of
             Inl e \<Rightarrow> Inl e
           | Inr q \<Rightarrow> Inr (q * 100)))"

subsection \<open>Analysis page\<close>

text \<open>The power density of one record, in the loop that builds the performance table.\<close>

definition power_density :: "cell \<Rightarrow> py_error + real" where
  "power_density d = (if temp d > 0 then truediv (capacity d) (temp d) else Inr 0)"

subsection \<open>Real-time monitor\<close>

text \<open>The refresh of every record, from its own voltage and current.\<close>

fun monitor_update :: "(string \<Rightarrow> draw) \<Rightarrow> registry \<Rightarrow> py_error + registry" where
  "monitor_update draws [] = Inr []"
| "monitor_update draws ((cell_name, d) # cells) =
     (case getitem CELL_CONFIGS (cell_type d) of
        Inl e \<Rightarrow> Inl e
      | Inr config \<Rightarrow>
          (case monitor_update draws cells of
             Inl e \<Rightarrow> Inl e
           | Inr cells' \<Rightarrow>
               Inr ((cell_name,
                     dict_update d
                       (generate_mock_data (cell_type d) (voltage d) (current d)
                          (draws cell_name)))
                    # cells')))"

text \<open>\<^verbatim>\<open>xs[-n:]\<close>: the last \<open>n\<close> elements, all of them when there are fewer.\<close>

definition last_n :: "nat \<Rightarrow> 'a list \<Rightarrow> 'a list" where
  "last_n n xs = drop (length xs - n) xs"

text \<open>
  The records after a change made in place, seen through the snapshots that hold them:
  a live snapshot has the keys of the session's dictionary and its record objects, so it
  shows the session's records.
\<close>

definition refresh_snapshots :: "registry \<Rightarrow> snapshot list \<Rightarrow> snapshot list" where
  "refresh_snapshots cells h =
     map (\<lambda>sn. if snap_live sn then sn\<lparr>snap_data := cells\<rparr> else sn) h"

definition store_snapshot :: "snapshot list \<Rightarrow> snapshot \<Rightarrow> snapshot list" where
  "store_snapshot h snap =
     (let h' = h @ [snap] in if length h' > 100 then last_n 100 h' else h')"

text \<open>
  One run of the page. With no cell configured the page stops; with auto refresh on it
  sleeps and reruns before anything below is reached; otherwise it refreshes the records
  and stores a snapshot. Both \<^verbatim>\<open>cells_data.copy()\<close> of the page are shallow, so the
  refresh changes the records of the session and of every live snapshot, and the new
  snapshot holds the same records.
\<close>

definition monitor_page :: "session \<Rightarrow> bool \<Rightarrow> (string \<Rightarrow> draw) \<Rightarrow> nat \<Rightarrow> py_error + session" where
  "monitor_page s auto_refresh draws now =
     (if cells_data s = [] then Inr s
      else if auto_refresh then Inr s
      else
        (case monitor_update draws (cells_data s) of
           Inl e \<Rightarrow> Inl e
         | Inr cells \<Rightarrow>
             Inr (s\<lparr>cells_data := cells,
                    historical_data :=
                      store_snapshot (refresh_snapshots cells (historical_data s))
                        \<lparr>snap_time = now, snap_live = True, snap_data = cells\<rparr>\<rparr>)))"

text \<open>A sequence of runs of the page, one triple for each.\<close>

fun monitor_cycles ::
  "session \<Rightarrow> (bool \<times> (string \<Rightarrow> draw) \<times> nat) list \<Rightarrow> py_error + session" where
  "monitor_cycles s [] = Inr s"
| "monitor_cycles s ((auto_refresh, draws, now) # cycles) =
     (case monitor_page s auto_refresh draws now of
        Inl e \<Rightarrow> Inl e
      | Inr s' \<Rightarrow> monitor_cycles s' cycles)"

section \<open>Properties\<close>

subsection \<open>Facts about the table\<close>

lemma getitem_lfp: "getitem CELL_CONFIGS ''lfp'' = Inr LFP"
  by (simp add: getitem_def CELL_CONFIGS_def)

lemma map_of_CELL_CONFIGS_cases:
  assumes "map_of CELL_CONFIGS k = Some p"
  shows "p = LFP \<or> p = NMC \<or> p = LTO \<or> p = LCO"
  using assms by (auto simp: CELL_CONFIGS_def split: if_splits)

lemma profile_cases:
  "dict_get CELL_CONFIGS k LFP \<in> {LFP, NMC, LTO, LCO}"
proof (cases "map_of CELL_CONFIGS k")
  case None
  then show ?thesis by (simp add: dict_get_def)
next
  case (Some p)
  with map_of_CELL_CONFIGS_cases [OF Some] show ?thesis
    by (auto simp: dict_get_def)
qed

lemma profile_bounds_ordered:
  "min_cfg (dict_get CELL_CONFIGS k LFP) < max_cfg (dict_get CELL_CONFIGS k LFP)"
  using profile_cases [of k] by (auto simp: LFP_def NMC_def LTO_def LCO_def)

lemma get_cell_status_unfold:
  "get_cell_status v ct =
     (let config = dict_get CELL_CONFIGS (lower ct) LFP
      in if v < min_cfg config then Inr (Critical, ''status-danger'')
         else if v > max_cfg config then Inr (Overcharged, ''status-warning'')
         else Inr (Normal, ''status-good''))"
  by (auto simp: get_cell_status_def getitem_lfp Let_def)

subsection \<open>The status classifier\<close>

text \<open>
  C1. For every voltage \<open>v\<close> and chemistry identifier \<open>c\<close> whose profile (the table's
  entry for the lowercased identifier, the LFP entry when there is none) has the bounds
  \<open>min\<close> and \<open>max\<close>, \<open>get_cell_status\<close> returns Critical exactly when \<open>v < min\<close>,
  Overcharged exactly when \<open>v > max\<close> and Normal exactly when \<open>min \<le> v \<le> max\<close>, and
  exactly one of the three conditions holds.
\<close>

theorem get_cell_status_classifies:
  assumes "dict_get CELL_CONFIGS (lower c) LFP = cfg"
  shows "\<exists>st cls. get_cell_status v c = Inr (st, cls) \<and>
           (st = Critical \<longleftrightarrow> v < min_cfg cfg) \<and>
           (st = Overcharged \<longleftrightarrow> v > max_cfg cfg) \<and>
           (st = Normal \<longleftrightarrow> min_cfg cfg \<le> v \<and> v \<le> max_cfg cfg) \<and>
           (if v < min_cfg cfg then 1 else 0) + (if v > max_cfg cfg then 1 else 0) +
             (if min_cfg cfg \<le> v \<and> v \<le> max_cfg cfg then 1 else 0) = (1::nat)"
proof -
  have ord: "min_cfg cfg < max_cfg cfg"
    using profile_bounds_ordered [of "lower c"] assms by simp
  show ?thesis
    using ord assms by (auto simp: get_cell_status_unfold Let_def)
qed

theorem get_cell_status_classifies_witness:
  "dict_get CELL_CONFIGS (lower ''NMC'') LFP = NMC \<and>
   get_cell_status 4.5 ''NMC'' = Inr (Overcharged, ''status-warning'') \<and>
   get_cell_status 3.2 ''lfp'' = Inr (Normal, ''status-good'') \<and>
   get_cell_status 1.4 ''Lto'' = Inr (Critical, ''status-danger'')"
proof -
  have p: "dict_get CELL_CONFIGS (lower ''NMC'') LFP = NMC"
    by (simp add: dict_get_def CELL_CONFIGS_def lower_def lower_char_def)
  have "get_cell_status 4.5 ''NMC'' = Inr (Overcharged, ''status-warning'')"
    using get_cell_status_classifies [OF p, of "4.5"]
    by (auto simp: NMC_def get_cell_status_unfold Let_def p)
  moreover have "get_cell_status 3.2 ''lfp'' = Inr (Normal, ''status-good'')"
    by (simp add: get_cell_status_unfold dict_get_def CELL_CONFIGS_def lower_def
        lower_char_def LFP_def)
  moreover have "get_cell_status 1.4 ''Lto'' = Inr (Critical, ''status-danger'')"
    by (simp add: get_cell_status_unfold dict_get_def CELL_CONFIGS_def lower_def
        lower_char_def LTO_def)
  ultimately show ?thesis using p by simp
qed

text \<open>
  C4. The fourth branch of \<open>get_cell_status\<close> is never taken: for every voltage and
  every chemistry identifier one of \<open>v < min\<close>, \<open>v > max\<close>, \<open>min \<le> v \<le> max\<close> holds, and
  the label returned is not Warning.
\<close>

theorem get_cell_status_never_warning:
  "\<exists>st cls. get_cell_status v c = Inr (st, cls) \<and> st \<noteq> Warning \<and>
     (v < min_cfg (dict_get CELL_CONFIGS (lower c) LFP) \<or>
      v > max_cfg (dict_get CELL_CONFIGS (lower c) LFP) \<or>
      (min_cfg (dict_get CELL_CONFIGS (lower c) LFP) \<le> v \<and>
       v \<le> max_cfg (dict_get CELL_CONFIGS (lower c) LFP)))"
  by (auto simp: get_cell_status_unfold Let_def)

text \<open>
  C5. For a chemistry identifier that, lowercased, is none of the four keys of the
  table, \<open>get_cell_status\<close> raises nothing and classifies with the bounds of the LFP
  profile, 2.8 V and 3.6 V: Critical below 2.8, Overcharged above 3.6, Normal between
  them, which is what it returns for \<open>lfp\<close>.
\<close>

theorem unknown_chemistry_uses_lfp:
  assumes "lower c \<notin> {''lfp'', ''nmc'', ''lto'', ''lco''}"
  shows "get_cell_status v c =
           Inr (if v < 2.8 then (Critical, ''status-danger'')
                else if v > 3.6 then (Overcharged, ''status-warning'')
                else (Normal, ''status-good'')) \<and>
         get_cell_status v c = get_cell_status v ''lfp'' \<and>
         dict_get CELL_CONFIGS (lower c) LFP = LFP"
proof -
  have "map_of CELL_CONFIGS (lower c) = None"
    using assms by (simp add: CELL_CONFIGS_def)
  then have a: "dict_get CELL_CONFIGS (lower c) LFP = LFP"
    by (simp add: dict_get_def)
  have b: "dict_get CELL_CONFIGS (lower ''lfp'') LFP = LFP"
    by (simp add: dict_get_def CELL_CONFIGS_def lower_def lower_char_def)
  have bounds: "min_cfg LFP = 2.8" "max_cfg LFP = 3.6"
    by (simp_all add: LFP_def)
  have u: "get_cell_status v c =
          Inr (if v < min_cfg LFP then (Critical, ''status-danger'')
               else if v > max_cfg LFP then (Overcharged, ''status-warning'')
               else (Normal, ''status-good''))"
    by (simp add: get_cell_status_unfold a Let_def)
  have l: "get_cell_status v ''lfp'' =
          Inr (if v < min_cfg LFP then (Critical, ''status-danger'')
               else if v > max_cfg LFP then (Overcharged, ''status-warning'')
               else (Normal, ''status-good''))"
    by (simp add: get_cell_status_unfold b Let_def)
  have "get_cell_status v c =
           Inr (if v < 2.8 then (Critical, ''status-danger'')
                else if v > 3.6 then (Overcharged, ''status-warning'')
                else (Normal, ''status-good''))"
    using u unfolding bounds .
  moreover have "get_cell_status v c = get_cell_status v ''lfp''"
    using u l by (rule trans [OF _ sym])
  ultimately show ?thesis
    using a by (intro conjI)
qed

theorem unknown_chemistry_uses_lfp_witness:
  "lower ''NiMH'' \<notin> {''lfp'', ''nmc'', ''lto'', ''lco''} \<and>
   get_cell_status 3.2 ''NiMH'' = Inr (Normal, ''status-good'') \<and>
   get_cell_status 3.7 ''NiMH'' = Inr (Overcharged, ''status-warning'') \<and>
   get_cell_status 2.7 ''NiMH'' = Inr (Critical, ''status-danger'') \<and>
   get_cell_status 3.7 ''NiMH'' = get_cell_status 3.7 ''lfp''"
proof -
  have h: "lower ''NiMH'' \<notin> {''lfp'', ''nmc'', ''lto'', ''lco''}"
    by (simp add: lower_def lower_char_def)
  have n: "get_cell_status 3.2 ''NiMH'' = Inr (Normal, ''status-good'')"
    using unknown_chemistry_uses_lfp [OF h, of "3.2"] by simp
  have o: "get_cell_status 3.7 ''NiMH'' = Inr (Overcharged, ''status-warning'')"
    using unknown_chemistry_uses_lfp [OF h, of "3.7"] by simp
  have e: "get_cell_status 3.7 ''NiMH'' = get_cell_status 3.7 ''lfp''"
    using unknown_chemistry_uses_lfp [OF h, of "3.7"] by (elim conjE)
  have k: "get_cell_status 2.7 ''NiMH'' = Inr (Critical, ''status-danger'')"
    using unknown_chemistry_uses_lfp [OF h, of "2.7"] by simp
  from h n o k e show ?thesis by (intro conjI)
qed

subsection \<open>Rounding\<close>

lemma round_half_even_near: "\<bar>x - of_int (round_half_even x)\<bar> \<le> 1 / 2"
proof -
  have "of_int \<lfloor>x\<rfloor> \<le> x" "x < of_int \<lfloor>x\<rfloor> + 1" by linarith+
  then show ?thesis
    by (auto simp: round_half_even_def Let_def abs_le_iff)
qed

lemma round_half_even_ge: "of_int m \<le> x \<Longrightarrow> m \<le> round_half_even x"
proof -
  assume "of_int m \<le> x"
  then have "m \<le> \<lfloor>x\<rfloor>" by (simp add: le_floor_iff)
  then show ?thesis by (auto simp: round_half_even_def Let_def)
qed

lemma round_half_even_le: "x \<le> of_int m \<Longrightarrow> round_half_even x \<le> m"
proof -
  assume a: "x \<le> of_int m"
  show ?thesis
  proof (cases "x = of_int m")
    case True
    then show ?thesis by (simp add: round_half_even_def)
  next
    case False
    with a have "x < of_int m" by simp
    then have "\<lfloor>x\<rfloor> < m" by (simp add: floor_less_iff)
    then show ?thesis by (auto simp: round_half_even_def Let_def)
  qed
qed

lemma py_round_near_2: "\<bar>py_round x 2 - x\<bar> \<le> 1 / 200"
proof -
  define r where "r = real_of_int (round_half_even (x * 100))"
  have "\<bar>x * 100 - r\<bar> \<le> 1 / 2"
    unfolding r_def by (rule round_half_even_near)
  moreover have "py_round x 2 = r / 100"
    by (simp add: py_round_def r_def)
  ultimately show ?thesis by linarith
qed

lemma py_round_grid_2:
  assumes "b * 100 = of_int n" and "\<bar>j\<bar> \<le> of_int k / 100"
  shows "\<bar>py_round (b + j) 2 - b\<bar> \<le> of_int k / 100"
proof -
  define y where "y = (b + j) * 100"
  define r where "r = real_of_int (round_half_even y)"
  have lo: "of_int (n - k) \<le> y" and hi: "y \<le> of_int (n + k)"
    using assms by (auto simp: y_def abs_le_iff field_simps)
  have "n - k \<le> round_half_even y" "round_half_even y \<le> n + k"
    using round_half_even_ge [OF lo] round_half_even_le [OF hi] by auto
  then have "real_of_int (n - k) \<le> r" "r \<le> real_of_int (n + k)"
    unfolding r_def by linarith+
  then have rb: "real_of_int n - real_of_int k \<le> r" "r \<le> real_of_int n + real_of_int k"
    by simp_all
  have p: "py_round (b + j) 2 = r / 100"
    by (simp add: py_round_def r_def y_def)
  show ?thesis
    unfolding p using rb assms(1) by linarith
qed

lemma py_round_between_1:
  assumes "of_int lo / 10 \<le> t" and "t \<le> of_int hi / 10"
  shows "of_int lo / 10 \<le> py_round t 1 \<and> py_round t 1 \<le> of_int hi / 10"
proof -
  have a: "of_int lo \<le> t * 10" and b: "t * 10 \<le> of_int hi"
    using assms by (auto simp: field_simps)
  have "lo \<le> round_half_even (t * 10)" "round_half_even (t * 10) \<le> hi"
    using round_half_even_ge [OF a] round_half_even_le [OF b] by auto
  then have "real_of_int lo \<le> of_int (round_half_even (t * 10))"
    "real_of_int (round_half_even (t * 10)) \<le> of_int hi"
    by linarith+
  then show ?thesis by (simp add: py_round_def field_simps)
qed


lemma jitter_then_round:
  fixes p b j e d :: real
  assumes "\<bar>p - (b + j)\<bar> \<le> e" and "\<bar>j\<bar> \<le> d"
  shows "\<bar>p - b\<bar> \<le> e + d"
  using assms by linarith

subsection \<open>Mock telemetry\<close>

text \<open>
  C7, as the code has it. For every base voltage and base current and every draw in the
  ranges of the three calls of \<^verbatim>\<open>random.uniform\<close>, the voltage returned is within
  0.105 V of the base voltage and the current within 0.505 A of the base current (the
  jitter and half a unit of the second decimal place that the rounding can add), and the
  temperature is in [25, 45]. When the base value is a multiple of 0.01 the bound is the
  jitter's own: 0.1 V and 0.5 A.
\<close>

theorem generate_mock_data_bounds:
  assumes "\<bar>jitter_v r\<bar> \<le> 0.1" and "\<bar>jitter_i r\<bar> \<le> 0.5"
    and "25 \<le> rand_temp r" and "rand_temp r \<le> 45"
  shows "\<bar>md_voltage (generate_mock_data ct bv bi r) - bv\<bar> \<le> 0.105 \<and>
         \<bar>md_current (generate_mock_data ct bv bi r) - bi\<bar> \<le> 0.505 \<and>
         25 \<le> md_temp (generate_mock_data ct bv bi r) \<and>
         md_temp (generate_mock_data ct bv bi r) \<le> 45 \<and>
         (bv * 100 \<in> \<int> \<longrightarrow> \<bar>md_voltage (generate_mock_data ct bv bi r) - bv\<bar> \<le> 0.1) \<and>
         (bi * 100 \<in> \<int> \<longrightarrow> \<bar>md_current (generate_mock_data ct bv bi r) - bi\<bar> \<le> 0.5)"
proof -
  have v1: "\<bar>py_round (bv + jitter_v r) 2 - bv\<bar> \<le> 0.105"
    using jitter_then_round [OF py_round_near_2 assms(1), of bv] by simp
  have i1: "\<bar>py_round (bi + jitter_i r) 2 - bi\<bar> \<le> 0.505"
    using jitter_then_round [OF py_round_near_2 assms(2), of bi] by simp
  have t: "25 \<le> py_round (rand_temp r) 1 \<and> py_round (rand_temp r) 1 \<le> 45"
    using py_round_between_1 [of 250 "rand_temp r" 450] assms(3,4) by simp
  have v2: "\<bar>py_round (bv + jitter_v r) 2 - bv\<bar> \<le> 0.1" if "bv * 100 \<in> \<int>"
  proof -
    from that obtain n where n: "bv * 100 = of_int n" by (auto elim: Ints_cases)
    show ?thesis
      using py_round_grid_2 [OF n, of "jitter_v r" 10] assms(1) by simp
  qed
  have i2: "\<bar>py_round (bi + jitter_i r) 2 - bi\<bar> \<le> 0.5" if "bi * 100 \<in> \<int>"
  proof -
    from that obtain n where n: "bi * 100 = of_int n" by (auto elim: Ints_cases)
    show ?thesis
      using py_round_grid_2 [OF n, of "jitter_i r" 50] assms(2) by simp
  qed
  show ?thesis
    using v1 i1 t v2 i2 by (simp add: generate_mock_data_def)
qed

theorem generate_mock_data_bounds_witness:
  "\<bar>jitter_v \<lparr>jitter_v = 0.099, jitter_i = - 0.5, rand_temp = 44.96, clock = 0\<rparr>\<bar> \<le> 0.1 \<and>
   \<bar>jitter_i \<lparr>jitter_v = 0.099, jitter_i = - 0.5, rand_temp = 44.96, clock = 0\<rparr>\<bar> \<le> 0.5 \<and>
   25 \<le> rand_temp \<lparr>jitter_v = 0.099, jitter_i = - 0.5, rand_temp = 44.96, clock = 0\<rparr> \<and>
   rand_temp \<lparr>jitter_v = 0.099, jitter_i = - 0.5, rand_temp = 44.96, clock = 0\<rparr> \<le> 45 \<and>
   (3.2::real) * 100 \<in> \<int> \<and> (2::real) * 100 \<in> \<int> \<and>
   generate_mock_data ''lfp'' 3.2 2
       \<lparr>jitter_v = 0.099, jitter_i = - 0.5, rand_temp = 44.96, clock = 0\<rparr>
     = \<lparr>md_voltage = 3.3, md_current = 1.5, md_temp = 45, md_timestamp = 0\<rparr> \<and>
   \<bar>3.3 - (3.2::real)\<bar> \<le> 0.1 \<and> \<bar>1.5 - (2::real)\<bar> \<le> 0.5"
proof -
  let ?r = "\<lparr>jitter_v = 0.099, jitter_i = - 0.5, rand_temp = 44.96, clock = 0\<rparr>"
  have h: "\<bar>jitter_v ?r\<bar> \<le> 0.1" "\<bar>jitter_i ?r\<bar> \<le> 0.5" "25 \<le> rand_temp ?r" "rand_temp ?r \<le> 45"
    by simp_all
  have g: "(3.2::real) * 100 \<in> \<int>" "(2::real) * 100 \<in> \<int>" by simp_all
  have e: "generate_mock_data ''lfp'' 3.2 2 ?r
     = \<lparr>md_voltage = 3.3, md_current = 1.5, md_temp = 45, md_timestamp = 0\<rparr>"
    by (simp add: generate_mock_data_def py_round_def round_half_even_def)
  from generate_mock_data_bounds [OF h, of "''lfp''" "3.2" 2] g e h show ?thesis
    by simp
qed

text \<open>
  The bounds 0.1 V and 0.5 A do not hold for every base value: from the base voltage
  3.1962 and the jitter 0.099 the rounding returns 3.30, which is 0.1038 away, and from
  the base current 0.1262 and the jitter 0.499 it returns 0.63, which is 0.5038 away.
\<close>

theorem generate_mock_data_jitter_counterexample:
  "\<bar>jitter_v \<lparr>jitter_v = 0.099, jitter_i = 0.499, rand_temp = 30, clock = 0\<rparr>\<bar> \<le> 0.1 \<and>
   \<bar>jitter_i \<lparr>jitter_v = 0.099, jitter_i = 0.499, rand_temp = 30, clock = 0\<rparr>\<bar> \<le> 0.5 \<and>
   generate_mock_data ''lfp'' 3.1962 0.1262
       \<lparr>jitter_v = 0.099, jitter_i = 0.499, rand_temp = 30, clock = 0\<rparr>
     = \<lparr>md_voltage = 3.3, md_current = 0.63, md_temp = 30, md_timestamp = 0\<rparr> \<and>
   \<not> \<bar>3.3 - (3.1962::real)\<bar> \<le> 0.1 \<and> \<not> \<bar>0.63 - (0.1262::real)\<bar> \<le> 0.5"
  by (simp add: generate_mock_data_def py_round_def round_half_even_def)

subsection \<open>The capacity field\<close>

lemma set_update_subset: "set (AList.update k v al) \<subseteq> insert (k, v) (set al)"
  by (induction al) auto

lemma configure_capacity:
  assumes "configure i slots cells = Inr cells'"
    and "\<forall>(k, d) \<in> set cells. capacity d = py_round (voltage d * current d) 2"
  shows "\<forall>(k, d) \<in> set cells'. capacity d = py_round (voltage d * current d) 2"
  using assms
proof (induction i slots cells rule: configure.induct)
  case (1 i cells)
  then show ?case by simp
next
  case (2 i ct cur u slots cells)
  from "2.prems"(1) obtain config where
    c: "getitem CELL_CONFIGS ct = Inr config"
    by (auto split: sum.splits)
  let ?d = "\<lparr>voltage = nominal config, current = cur, temp = py_round u 1,
              capacity = py_round (nominal config * cur) 2,
              min_voltage = min_cfg config, max_voltage = max_cfg config,
              cell_type = ct, timestamp = None\<rparr>"
  let ?cells = "AList.update (''cell_'' @ str_nat (i + 1) @ ''_'' @ ct) ?d cells"
  have run: "configure (i + 1) slots ?cells = Inr cells'"
    using "2.prems"(1) c by simp
  have inv: "\<forall>(k, d) \<in> set ?cells. capacity d = py_round (voltage d * current d) 2"
    using "2.prems"(2) set_update_subset [of "''cell_'' @ str_nat (i + 1) @ ''_'' @ ct" ?d cells]
    by auto
  show ?case
    by (rule "2.IH" [OF c run inv])
qed

text \<open>
  C2, as the code has it. After "Save Configuration" and after the control panel has
  written the sliders into a record, the stored capacity is the product of the record's
  voltage and current rounded to two decimal places; after "Emergency Stop" the current
  and the capacity are both zero, so the capacity is the product itself.
\<close>

theorem capacity_after_mutation:
  "(save_configuration s bn gn slots = Inr s' \<longrightarrow>
      (\<forall>(k, d) \<in> set (cells_data s'). capacity d = py_round (voltage d * current d) 2)) \<and>
   (\<forall>(k, d) \<in> set (control_update sliders cells).
      capacity d = py_round (voltage d * current d) 2) \<and>
   (\<forall>(k, d) \<in> set (emergency_stop cells).
      current d = 0 \<and> capacity d = 0 \<and> capacity d = voltage d * current d)"
proof (intro conjI impI)
  assume "save_configuration s bn gn slots = Inr s'"
  then obtain cs where cs: "configure 0 slots [] = Inr cs" and s': "cells_data s' = cs"
    by (auto simp: save_configuration_def split: sum.splits)
  from configure_capacity [OF cs] show
    "\<forall>(k, d) \<in> set (cells_data s'). capacity d = py_round (voltage d * current d) 2"
    by (simp add: s')
next
  show "\<forall>(k, d) \<in> set (control_update sliders cells).
      capacity d = py_round (voltage d * current d) 2"
    by (auto simp: control_update_def split: prod.splits)
next
  show "\<forall>(k, d) \<in> set (emergency_stop cells).
      current d = 0 \<and> capacity d = 0 \<and> capacity d = voltage d * current d"
    by (auto simp: emergency_stop_def)
qed

theorem capacity_after_mutation_witness:
  "save_configuration initial_session ''A1'' 1 [(''nmc'', 0.5, 30)] =
     Inr \<lparr>cells_data =
            [(''cell_1_nmc'',
              \<lparr>voltage = 3.6, current = 0.5, temp = 30, capacity = 1.8,
               min_voltage = 3.2, max_voltage = 4.0, cell_type = ''nmc'', timestamp = None\<rparr>)],
          bench_name = ''A1'', group_num = 1, historical_data = []\<rparr> \<and>
   py_round (3.6 * 0.5) 2 = (1.8::real) \<and>
   map (\<lambda>(k, d). (k, voltage d, current d, capacity d))
     (control_update (\<lambda>_. (3.25, 0.25, 31))
        [(''cell_1_nmc'',
          \<lparr>voltage = 3.6, current = 0.5, temp = 30, capacity = 1.8,
           min_voltage = 3.2, max_voltage = 4.0, cell_type = ''nmc'', timestamp = None\<rparr>)])
     = [(''cell_1_nmc'', 3.25, 0.25, 0.81)] \<and>
   map (\<lambda>(k, d). (k, voltage d, current d, capacity d))
     (emergency_stop
        [(''cell_1_nmc'',
          \<lparr>voltage = 3.6, current = 0.5, temp = 30, capacity = 1.8,
           min_voltage = 3.2, max_voltage = 4.0, cell_type = ''nmc'', timestamp = None\<rparr>)])
     = [(''cell_1_nmc'', 3.6, 0, 0)]"
proof -
  let ?d = "\<lparr>voltage = 3.6, current = 0.5, temp = 30, capacity = 1.8,
             min_voltage = 3.2, max_voltage = 4.0, cell_type = ''nmc'', timestamp = None\<rparr>"
  let ?s = "\<lparr>cells_data = [(''cell_1_nmc'', ?d)],
             bench_name = ''A1'', group_num = 1, historical_data = []\<rparr>"
  have run: "save_configuration initial_session ''A1'' 1 [(''nmc'', 0.5, 30)] = Inr ?s"
    by (simp add: save_configuration_def retire_snapshots_def initial_session_def getitem_def
        CELL_CONFIGS_def NMC_def str_nat.simps py_round_def round_half_even_def)
  note inst = capacity_after_mutation
      [of initial_session "''A1''" 1 "[(''nmc'', 0.5, 30)]" ?s "\<lambda>_. (3.25, 0.25, 31)"
        "[(''cell_1_nmc'', ?d)]"]
  from inst run have "capacity ?d = py_round (voltage ?d * current ?d) 2"
    by simp
  then have saved: "py_round (3.6 * 0.5) 2 = (1.8::real)" by simp
  from inst have stopped:
    "map (\<lambda>(k, d). (k, voltage d, current d, capacity d)) (emergency_stop [(''cell_1_nmc'', ?d)])
       = [(''cell_1_nmc'', 3.6, 0, 0)]"
    by (simp add: emergency_stop_def)
  have controlled:
    "map (\<lambda>(k, d). (k, voltage d, current d, capacity d))
       (control_update (\<lambda>_. (3.25, 0.25, 31)) [(''cell_1_nmc'', ?d)])
       = [(''cell_1_nmc'', 3.25, 0.25, 0.81)]"
    by (simp add: control_update_def py_round_def round_half_even_def)
  from run saved controlled stopped show ?thesis
    by simp
qed

text \<open>
  The capacity is not the product on every path. A cell configured as LFP with the
  current 0.01 stores the capacity 0.03, and the product is 0.032. "Randomize Values"
  writes a new voltage and a new current and leaves the capacity as it was: from a
  record with current and capacity 0 it gives voltage 3.25, current 0.25 and capacity 0.
\<close>

theorem capacity_is_product_counterexample:
  "save_configuration initial_session ''A1'' 1 [(''lfp'', 0.01, 30)] =
     Inr \<lparr>cells_data =
            [(''cell_1_lfp'',
              \<lparr>voltage = 3.2, current = 0.01, temp = 30, capacity = 0.03,
               min_voltage = 2.8, max_voltage = 3.6, cell_type = ''lfp'', timestamp = None\<rparr>)],
          bench_name = ''A1'', group_num = 1, historical_data = []\<rparr> \<and>
   (0.03::real) \<noteq> 3.2 * 0.01 \<and>
   randomize_values (\<lambda>_. \<lparr>jitter_v = 0.05, jitter_i = 0.25, rand_temp = 30, clock = 7\<rparr>)
     [(''cell_1_lfp'',
       \<lparr>voltage = 3.2, current = 0, temp = 30, capacity = 0,
        min_voltage = 2.8, max_voltage = 3.6, cell_type = ''lfp'', timestamp = None\<rparr>)] =
     Inr [(''cell_1_lfp'',
           \<lparr>voltage = 3.25, current = 0.25, temp = 30, capacity = 0,
            min_voltage = 2.8, max_voltage = 3.6, cell_type = ''lfp'', timestamp = Some 7\<rparr>)] \<and>
   (0::real) \<noteq> 3.25 * 0.25"
  by (simp add: save_configuration_def retire_snapshots_def initial_session_def getitem_def
      CELL_CONFIGS_def LFP_def str_nat.simps py_round_def round_half_even_def dict_update_def
      generate_mock_data_def)

subsection \<open>Emergency stop\<close>

text \<open>
  C3. Emergency stop keeps the records and their order: the result has, position by
  position, the same key, the current 0 and the capacity 0, and the voltage,
  temperature, chemistry, voltage bounds and timestamp of the record it came from.
\<close>

theorem emergency_stop_frame:
  "list_all2
     (\<lambda>(k, d) (k', d').
        k' = k \<and> current d' = 0 \<and> capacity d' = 0 \<and>
        voltage d' = voltage d \<and> temp d' = temp d \<and> cell_type d' = cell_type d \<and>
        min_voltage d' = min_voltage d \<and> max_voltage d' = max_voltage d \<and>
        timestamp d' = timestamp d)
     cells (emergency_stop cells)"
  by (induction cells) (auto simp: emergency_stop_def)

subsection \<open>System health\<close>

lemma healthy_cells_count:
  "healthy_cells cells =
     Inr (length (filter (\<lambda>(k, d). get_cell_status (voltage d) (cell_type d) =
                                    Inr (Normal, ''status-good'')) cells))"
proof (induction cells)
  case Nil
  then show ?case by simp
next
  case (Cons a cells)
  obtain k d where a: "a = (k, d)" by (cases a)
  show ?case
    using Cons by (auto simp: a get_cell_status_unfold Let_def)
qed

text \<open>
  C6. For a registry that is not empty, \<open>health_percentage\<close> raises nothing and is the
  number of records that \<open>get_cell_status\<close> labels Normal, over the number of records,
  times 100; it is 100 when every record is labelled Normal and 0 when none is.
\<close>

theorem health_percentage_formula:
  assumes "cells \<noteq> []"
  shows "health_percentage cells =
           Inr (real (length (filter (\<lambda>(k, d). get_cell_status (voltage d) (cell_type d) =
                                              Inr (Normal, ''status-good'')) cells))
                / real (length cells) * 100) \<and>
         ((\<forall>(k, d) \<in> set cells.
             get_cell_status (voltage d) (cell_type d) = Inr (Normal, ''status-good''))
            \<longrightarrow> health_percentage cells = Inr 100) \<and>
         ((\<forall>(k, d) \<in> set cells.
             get_cell_status (voltage d) (cell_type d) \<noteq> Inr (Normal, ''status-good''))
            \<longrightarrow> health_percentage cells = Inr 0)"
proof -
  let ?P = "\<lambda>(k, d). get_cell_status (voltage d) (cell_type d) = Inr (Normal, ''status-good'')"
  have len: "real (length cells) \<noteq> 0" using assms by simp
  have hp: "health_percentage cells = Inr (real (length (filter ?P cells)) / real (length cells) * 100)"
    using len by (simp add: health_percentage_def healthy_cells_count truediv_def)
  have all: "filter ?P cells = cells" if "\<forall>(k, d) \<in> set cells. ?P (k, d)"
    using that by (intro filter_True) auto
  have none: "filter ?P cells = []" if "\<forall>(k, d) \<in> set cells. \<not> ?P (k, d)"
    using that by (intro filter_False) auto
  show ?thesis
  proof (intro conjI impI)
    show "health_percentage cells = Inr (real (length (filter ?P cells)) / real (length cells) * 100)"
      by (rule hp)
  next
    assume "\<forall>(k, d) \<in> set cells. get_cell_status (voltage d) (cell_type d) = Inr (Normal, ''status-good'')"
    then have "filter ?P cells = cells" using all by auto
    then show "health_percentage cells = Inr 100" using hp len by simp
  next
    assume "\<forall>(k, d) \<in> set cells. get_cell_status (voltage d) (cell_type d) \<noteq> Inr (Normal, ''status-good'')"
    then have "filter ?P cells = []" using none by auto
    then show "health_percentage cells = Inr 0" using hp by simp
  qed
qed

theorem health_percentage_formula_witness:
  "health_percentage
     [(''A'', \<lparr>voltage = 3.2, current = 2, temp = 30, capacity = 6.4,
              min_voltage = 2.8, max_voltage = 3.6, cell_type = ''lfp'', timestamp = None\<rparr>),
      (''B'', \<lparr>voltage = 4.5, current = - 1, temp = 30, capacity = - 4.5,
              min_voltage = 3.2, max_voltage = 4.0, cell_type = ''nmc'', timestamp = None\<rparr>)]
     = Inr 50 \<and>
   health_percentage
     [(''A'', \<lparr>voltage = 3.2, current = 2, temp = 30, capacity = 6.4,
              min_voltage = 2.8, max_voltage = 3.6, cell_type = ''lfp'', timestamp = None\<rparr>)]
     = Inr 100 \<and>
   health_percentage
     [(''B'', \<lparr>voltage = 4.5, current = - 1, temp = 30, capacity = - 4.5,
              min_voltage = 3.2, max_voltage = 4.0, cell_type = ''nmc'', timestamp = None\<rparr>)]
     = Inr 0"
proof -
  let ?A = "(''A'', \<lparr>voltage = 3.2, current = 2, temp = 30, capacity = 6.4,
              min_voltage = 2.8, max_voltage = 3.6, cell_type = ''lfp'', timestamp = None\<rparr>)"
  let ?B = "(''B'', \<lparr>voltage = 4.5, current = - 1, temp = 30, capacity = - 4.5,
              min_voltage = 3.2, max_voltage = 4.0, cell_type = ''nmc'', timestamp = None\<rparr>)"
  have a: "get_cell_status 3.2 ''lfp'' = Inr (Normal, ''status-good'')"
    by (simp add: get_cell_status_unfold dict_get_def CELL_CONFIGS_def lower_def
        lower_char_def LFP_def)
  have b: "get_cell_status 4.5 ''nmc'' = Inr (Overcharged, ''status-warning'')"
    by (simp add: get_cell_status_unfold dict_get_def CELL_CONFIGS_def lower_def
        lower_char_def NMC_def)
  have "health_percentage [?A, ?B] = Inr 50"
    using health_percentage_formula [of "[?A, ?B]"] by (simp add: a [simplified] b [simplified])
  moreover have "health_percentage [?A] = Inr 100"
    using health_percentage_formula [of "[?A]"] by (simp add: a [simplified])
  moreover have "health_percentage [?B] = Inr 0"
    using health_percentage_formula [of "[?B]"] by (simp add: b [simplified])
  ultimately show ?thesis by simp
qed

subsection \<open>Power density\<close>

text \<open>
  C9. The power density of a record never divides by zero: it is the capacity over the
  temperature when the temperature is positive, and 0 otherwise.
\<close>

theorem power_density_guarded:
  "power_density d = Inr (if temp d > 0 then capacity d / temp d else 0) \<and>
   power_density d \<noteq> Inl ZeroDivisionError"
  by (simp add: power_density_def truediv_def)

subsection \<open>The snapshots of the monitor\<close>

lemma store_snapshot_length:
  "length h \<le> 100 \<Longrightarrow> length (store_snapshot h snap) \<le> 100"
  by (simp add: store_snapshot_def last_n_def Let_def)

lemma store_snapshot_recent:
  "store_snapshot h snap = drop (Suc (length h) - 100) (h @ [snap])"
  by (simp add: store_snapshot_def last_n_def Let_def)

lemma monitor_page_history:
  assumes "monitor_page s a draws now = Inr s'" and "length (historical_data s) \<le> 100"
  shows "length (historical_data s') \<le> 100"
  using assms
  by (auto simp: monitor_page_def refresh_snapshots_def store_snapshot_length
      split: if_splits sum.splits)

lemma monitor_cycles_history:
  assumes "monitor_cycles s cycles = Inr s'" and "length (historical_data s) \<le> 100"
  shows "length (historical_data s') \<le> 100"
  using assms
proof (induction cycles arbitrary: s)
  case Nil
  then show ?case by simp
next
  case (Cons c cycles)
  obtain a draws now where c: "c = (a, draws, now)" by (cases c)
  from Cons.prems(1) obtain s1 where
    s1: "monitor_page s a draws now = Inr s1" and rest: "monitor_cycles s1 cycles = Inr s'"
    by (auto simp: c split: sum.splits)
  from monitor_page_history [OF s1 Cons.prems(2)] have "length (historical_data s1) \<le> 100" .
  with Cons.IH [OF rest] show ?case .
qed

text \<open>
  C10. Runs of the monitor page keep the list of snapshots at 100 entries or fewer,
  from any list within that bound, the empty one the session starts with among them.
  Storing a snapshot appends it and keeps the last 100 entries of the result.
\<close>

theorem historical_data_at_most_100:
  assumes "monitor_cycles s cycles = Inr s'"
    and "length (historical_data s) \<le> 100"
  shows "length (historical_data s') \<le> 100 \<and>
         store_snapshot h snap = drop (Suc (length h) - 100) (h @ [snap]) \<and>
         length (store_snapshot h snap) = min 100 (Suc (length h))"
proof -
  have "length (store_snapshot h snap) = min 100 (Suc (length h))"
    by (simp add: store_snapshot_recent)
  with monitor_cycles_history [OF assms] show ?thesis
    by (simp add: store_snapshot_recent)
qed

theorem historical_data_at_most_100_witness:
  "monitor_cycles
     \<lparr>cells_data =
        [(''cell_1_lfp'',
          \<lparr>voltage = 3.2, current = 0, temp = 30, capacity = 0,
           min_voltage = 2.8, max_voltage = 3.6, cell_type = ''lfp'', timestamp = None\<rparr>)],
      bench_name = ''A1'', group_num = 1,
      historical_data =
        replicate 100
          \<lparr>snap_time = 0, snap_live = True,
           snap_data =
             [(''cell_1_lfp'',
               \<lparr>voltage = 3.2, current = 0, temp = 30, capacity = 0,
                min_voltage = 2.8, max_voltage = 3.6, cell_type = ''lfp'',
                timestamp = None\<rparr>)]\<rparr>\<rparr>
     [(False, \<lambda>_. \<lparr>jitter_v = 0.05, jitter_i = 0.25, rand_temp = 30, clock = 7\<rparr>, 8)]
   = Inr \<lparr>cells_data =
            [(''cell_1_lfp'',
              \<lparr>voltage = 3.25, current = 0.25, temp = 30, capacity = 0,
               min_voltage = 2.8, max_voltage = 3.6, cell_type = ''lfp'', timestamp = Some 7\<rparr>)],
          bench_name = ''A1'', group_num = 1,
          historical_data =
            replicate 99
              \<lparr>snap_time = 0, snap_live = True,
               snap_data =
                 [(''cell_1_lfp'',
                   \<lparr>voltage = 3.25, current = 0.25, temp = 30, capacity = 0,
                    min_voltage = 2.8, max_voltage = 3.6, cell_type = ''lfp'',
                    timestamp = Some 7\<rparr>)]\<rparr> @
            [\<lparr>snap_time = 8, snap_live = True,
              snap_data =
                [(''cell_1_lfp'',
                  \<lparr>voltage = 3.25, current = 0.25, temp = 30, capacity = 0,
                   min_voltage = 2.8, max_voltage = 3.6, cell_type = ''lfp'',
                   timestamp = Some 7\<rparr>)]\<rparr>]\<rparr> \<and>
   length (replicate 100 (0::nat)) \<le> 100 \<and> length (replicate 99 (0::nat) @ [8]) \<le> 100"
proof -
  let ?d = "\<lparr>voltage = 3.2, current = 0, temp = 30, capacity = 0,
           min_voltage = 2.8, max_voltage = 3.6, cell_type = ''lfp'', timestamp = None\<rparr>"
  let ?d' = "\<lparr>voltage = 3.25, current = 0.25, temp = 30, capacity = 0,
               min_voltage = 2.8, max_voltage = 3.6, cell_type = ''lfp'', timestamp = Some 7\<rparr>"
  let ?old = "\<lparr>snap_time = 0, snap_live = True, snap_data = [(''cell_1_lfp'', ?d)]\<rparr>"
  let ?old' = "\<lparr>snap_time = 0, snap_live = True, snap_data = [(''cell_1_lfp'', ?d')]\<rparr>"
  let ?new = "\<lparr>snap_time = 8, snap_live = True, snap_data = [(''cell_1_lfp'', ?d')]\<rparr>"
  let ?s = "\<lparr>cells_data = [(''cell_1_lfp'', ?d)],
      bench_name = ''A1'', group_num = 1, historical_data = replicate 100 ?old\<rparr>"
  let ?s' = "\<lparr>cells_data = [(''cell_1_lfp'', ?d')],
      bench_name = ''A1'', group_num = 1,
      historical_data = replicate 99 ?old' @ [?new]\<rparr>"
  let ?cycles = "[(False, \<lambda>_. \<lparr>jitter_v = 0.05, jitter_i = 0.25, rand_temp = 30, clock = 7\<rparr>, 8)]"
  have r: "replicate 100 x = x # replicate 99 x" for x :: snapshot
    by (simp add: replicate_Suc [symmetric] del: replicate_Suc)
  have run: "monitor_cycles ?s ?cycles = Inr ?s'"
    by (simp add: monitor_page_def getitem_def CELL_CONFIGS_def dict_update_def
        generate_mock_data_def py_round_def round_half_even_def refresh_snapshots_def
        store_snapshot_def last_n_def r)
  have len: "length (historical_data ?s) \<le> 100"
    by simp
  from historical_data_at_most_100 [OF run len] run show ?thesis
    by simp
qed

end
